theory Spec2Isabelle
  imports Main "HOL-Library.Word" "HOL-Library.Sublist"
begin

section \<open>The readarr client (pkg/arr/readarr/readarr.go)\<close>

subsection \<open>Go values the client handles\<close>

text \<open>
  \<^verbatim>\<open>time.Duration\<close> is an \<^verbatim>\<open>int64\<close> counting nanoseconds, so it is a 64-bit word
  read with \<open>sint\<close>; multiplication wraps as Go's does.
\<close>

type_synonym Duration = "64 word"

definition Second :: Duration where
  "Second = 1000000000"

text \<open>
  A \<^verbatim>\<open>*log.Logger\<close> is a pointer: \<open>None\<close> is \<^verbatim>\<open>nil\<close>. The logger itself holds the writer
  it prints to, a prefix and the flag bits; \<^verbatim>\<open>log.LstdFlags\<close> is \<^verbatim>\<open>Ldate | Ltime\<close>.
\<close>

datatype Writer = io_Discard | io_Writer nat

record Logger =
  logOut :: Writer
  logPrefix :: string
  logFlags :: nat

definition log_LstdFlags :: nat where
  "log_LstdFlags = 3"

definition log_New :: "Writer \<Rightarrow> string \<Rightarrow> nat \<Rightarrow> Logger" where
  "log_New w p f = \<lparr>logOut = w, logPrefix = p, logFlags = f\<rparr>"

datatype RoundTripper = sharedhttp_Transport

record http_Client =
  Timeout :: Duration
  Transport :: RoundTripper

definition http_StatusBadRequest :: int where
  "http_StatusBadRequest = 400"

definition http_StatusUnauthorized :: int where
  "http_StatusUnauthorized = 401"

text \<open>
  Errors are values. \<open>errors_New\<close> and \<open>errors_Wrap\<close> are the two constructors the client
  calls; \<open>foreign\<close> is an error handed over by the transport or by \<^verbatim>\<open>encoding/json\<close>.
\<close>

datatype error =
    errors_New string
  | errors_Wrap error string
  | foreign string

text \<open>A panic is a result of its own, tagged with the pointer that was nil.\<close>

datatype panic = NilLogger | NilBadRequestResponse

subsection \<open>Config, Client and New\<close>

record Config =
  Hostname :: string
  APIKey :: string
  BasicAuth :: bool
  Username :: string
  Password :: string
  Log :: "Logger option"

record Client =
  config :: Config
  http :: http_Client
  Log :: "Logger option"

definition New :: "Config \<Rightarrow> Client" where
  "New cfg =
     (let httpClient = \<lparr>Timeout = Second * 120, Transport = sharedhttp_Transport\<rparr>;
          c = \<lparr>config = cfg, http = httpClient,
               Log = Some (log_New io_Discard [] log_LstdFlags)\<rparr>
      in if Config.Log cfg \<noteq> None then c\<lparr>Client.Log := Config.Log cfg\<rparr> else c)"

subsection \<open>What the client calls but does not define\<close>

text \<open>
  The release and the push response are declared in the package's types file. The client
  reads \<^verbatim>\<open>release.Title\<close>, \<^verbatim>\<open>pushResponse.Rejected\<close> (a \<^verbatim>\<open>bool\<close>) and
  \<^verbatim>\<open>pushResponse.Rejections\<close> (a \<^verbatim>\<open>[]string\<close>, where \<open>None\<close> is the nil slice).
\<close>

record Release =
  Title :: string

record PushResponse =
  Rejected :: bool
  Rejections :: "string list option"

text \<open>
  The transport (\<^verbatim>\<open>get\<close>, \<^verbatim>\<open>postBody\<close>), the decoding of a body by \<^verbatim>\<open>json.Unmarshal\<close> into
  each of the three targets, and \<^verbatim>\<open>BadRequestResponse.String\<close> are parameters: the
  client is modelled for every behaviour they can have. A body is opaque to the client
  (\<open>'body\<close>); the bad-request target is a slice of pointers, so its elements may be nil;
  a transport call returns Go's triple of status, body and error.
\<close>

record ('body, 'bad, 'sys) collaborators =
  get :: "Client \<Rightarrow> string \<Rightarrow> int \<times> 'body \<times> error option"
  postBody :: "Client \<Rightarrow> string \<Rightarrow> Release \<Rightarrow> int \<times> 'body \<times> error option"
  unmarshalBadRequest :: "'body \<Rightarrow> error + 'bad option list"
  unmarshalPush :: "'body \<Rightarrow> error + PushResponse"
  unmarshalStatus :: "'body \<Rightarrow> error + 'sys"
  String :: "'bad \<Rightarrow> string"

text \<open>A call of \<^verbatim>\<open>Printf\<close> on the client's logger: the format and its arguments.\<close>

datatype 'body arg = ArgInt int | ArgBody 'body | ArgString string

type_synonym 'body printf = "string \<times> 'body arg list"

definition strings_Join :: "string list option \<Rightarrow> string \<Rightarrow> string" where
  "strings_Join elems sep =
     (case elems of
        None \<Rightarrow> []
      | Some [] \<Rightarrow> []
      | Some (x # xs) \<Rightarrow> x @ concat (map (\<lambda>e. sep @ e) xs))"

subsection \<open>Test\<close>

definition Test ::
  "('body, 'bad, 'sys) collaborators \<Rightarrow> Client \<Rightarrow>
     panic + ('body printf list \<times> 'sys option \<times> error option)" where
  "Test env c =
     (case get env c ''system/status'' of (status, res, err) \<Rightarrow>
        (case err of
           Some e \<Rightarrow> Inr ([], None, Some (errors_Wrap e ''could not make Test''))
         | None \<Rightarrow>
             if status = http_StatusUnauthorized
             then Inr ([], None, Some (errors_New ''unauthorized: bad credentials''))
             else (case Client.Log c of
                     None \<Rightarrow> Inl NilLogger
                   | Some l \<Rightarrow>
                       (let printed = [(''readarr system/status status: (%v) response: %v\<newline>'',
                                        [ArgInt status, ArgBody res])]
                        in case unmarshalStatus env res of
                             Inl e \<Rightarrow>
                               Inr (printed, None, Some (errors_Wrap e ''could not unmarshal data''))
                           | Inr response \<Rightarrow> Inr (printed, Some response, None)))))"

subsection \<open>Push\<close>

text \<open>
  The loop over the decoded bad-request responses appends one rendered string per
  element; calling \<^verbatim>\<open>String\<close> on a nil element dereferences it.
\<close>

fun renderRejections ::
  "('bad \<Rightarrow> string) \<Rightarrow> 'bad option list \<Rightarrow> string list \<Rightarrow> panic + string list" where
  "renderRejections str [] rejections = Inr rejections"
| "renderRejections str (None # rest) rejections = Inl NilBadRequestResponse"
| "renderRejections str (Some response # rest) rejections =
     renderRejections str rest (rejections @ [str response])"

definition Push ::
  "('body, 'bad, 'sys) collaborators \<Rightarrow> Client \<Rightarrow> Release \<Rightarrow>
     panic + ('body printf list \<times> string list option \<times> error option)" where
  "Push env c release =
     (case postBody env c ''release/push'' release of (status, res, err) \<Rightarrow>
        (case err of
           Some e \<Rightarrow> Inr ([], None, Some (errors_Wrap e ''could not push release to readarr''))
         | None \<Rightarrow>
             (case Client.Log c of
                None \<Rightarrow> Inl NilLogger
              | Some l \<Rightarrow>
                  (let printed = [(''readarr release/push status: (%v) response: %v\<newline>'',
                                   [ArgInt status, ArgBody res])]
                   in if status = http_StatusBadRequest
                      then (case unmarshalBadRequest env res of
                              Inl e \<Rightarrow>
                                Inr (printed, None,
                                     Some (errors_Wrap e ''could not unmarshal data''))
                            | Inr badRequestResponses \<Rightarrow>
                                (case renderRejections (String env) badRequestResponses [] of
                                   Inl p \<Rightarrow> Inl p
                                 | Inr rejections \<Rightarrow> Inr (printed, Some rejections, None)))
                      else (case unmarshalPush env res of
                              Inl e \<Rightarrow>
                                Inr (printed, None,
                                     Some (errors_Wrap e ''could not unmarshal data''))
                            | Inr pushResponse \<Rightarrow>
                                if Rejected pushResponse
                                then (let rejections =
                                            strings_Join (Rejections pushResponse) '', ''
                                      in Inr (printed @
                                              [(''readarr release/push rejected %v reasons: %q\<newline>'',
                                                [ArgString (Title release), ArgString rejections])],
                                              Rejections pushResponse, None))
                                else Inr (printed, None, None))))))"

text \<open>What a call hands back to its caller: Go's pair of value and error.\<close>

definition returned :: "'p + ('l \<times> 'r) \<Rightarrow> 'p + 'r" where
  "returned r = map_sum id snd r"

subsection \<open>The transport under the client's timeout\<close>

text \<open>
  Modelled from the spec: the transport call behind \<^verbatim>\<open>postBody\<close>, which is not among the
  sources. It is a blocking exchange made through the client's own HTTP client, and
  \<^verbatim>\<open>net/http\<close> bounds it by that client's \<^verbatim>\<open>Timeout\<close>: a positive value is the time
  allowed for the whole exchange, zero or less is no limit. A downstream answers after
  a delay, counted in nanoseconds, or never. A call that never returns is \<open>None\<close>.
\<close>

datatype downstream = Answers nat int string | NeverAnswers

definition deadlineExceeded :: error where
  "deadlineExceeded =
     foreign ''context deadline exceeded (Client.Timeout exceeded while awaiting headers)''"

definition http_Do :: "http_Client \<Rightarrow> downstream \<Rightarrow> (int \<times> string \<times> error option) option" where
  "http_Do h d =
     (case d of
        Answers delay status body \<Rightarrow>
          if 0 < sint (Timeout h) \<and> sint (Timeout h) \<le> int delay
          then Some (0, [], Some deadlineExceeded)
          else Some (status, body, None)
      | NeverAnswers \<Rightarrow>
          if 0 < sint (Timeout h) then Some (0, [], Some deadlineExceeded) else None)"

text \<open>
  Modelled from the spec: \<^verbatim>\<open>Push\<close> with its transport call made to a given downstream
  (\<^verbatim>\<open>postBody\<close> is not among the sources). What the exchange gives is what \<^verbatim>\<open>postBody\<close>
  returns; if the exchange never ends, neither does \<^verbatim>\<open>Push\<close>.
\<close>

definition PushTo ::
  "(string, 'bad, 'sys) collaborators \<Rightarrow> Client \<Rightarrow> Release \<Rightarrow> downstream \<Rightarrow>
     (panic + (string printf list \<times> string list option \<times> error option)) option" where
  "PushTo env c release d =
     (case http_Do (http c) d of
        None \<Rightarrow> None
      | Some response \<Rightarrow>
          Some (Push (env\<lparr>postBody := (\<lambda>c endpoint release. response)\<rparr>) c release))"

subsection \<open>Recorded responses\<close>

text \<open>
  A downstream that answers every request with one fixed status and body, and the
  results \<^verbatim>\<open>json.Unmarshal\<close> gives on a handful of recorded bodies: enough to run the
  client on concrete responses. A decoded rejection object is kept as the text it
  renders to; a body that was not recorded decodes to an error.
\<close>

definition recordedBadRequest :: "string \<Rightarrow> error + string option list" where
  \<open>recordedBadRequest body =
     (if body = ''[{"errorMessage": "already in library"}]''
      then Inr [Some ''already in library'']
      else if body = ''[{"errorMessage": "unknown author"}, {"errorMessage": "bad quality"}]''
      then Inr [Some ''unknown author'', Some ''bad quality'']
      else Inl (foreign ''json: cannot unmarshal into Go value of type []*readarr.BadRequestResponse''))\<close>

definition recordedPush :: "string \<Rightarrow> error + PushResponse" where
  \<open>recordedPush body =
     (if body = ''{"rejected": false}'' then Inr \<lparr>Rejected = False, Rejections = None\<rparr>
      else if body = ''{"rejected": true, "rejections": ["a","b"]}''
      then Inr \<lparr>Rejected = True, Rejections = Some [''a'', ''b'']\<rparr>
      else if body = ''{"rejected": true}'' then Inr \<lparr>Rejected = True, Rejections = None\<rparr>
      else if body = ''{}'' then Inr \<lparr>Rejected = False, Rejections = None\<rparr>
      else Inl (foreign ''json: cannot unmarshal into Go value of type readarr.PushResponse''))\<close>

definition recordedStatus :: "string \<Rightarrow> error + string" where
  \<open>recordedStatus body =
     (if body = ''{"version": "0.3.0"}'' then Inr ''0.3.0''
      else if body = ''{}'' then Inr []
      else Inl (foreign ''json: cannot unmarshal into Go value of type readarr.SystemStatusResponse''))\<close>

definition recorded :: "int \<times> string \<times> error option \<Rightarrow> (string, string, string) collaborators" where
  "recorded response =
     \<lparr>get = (\<lambda>c endpoint. response),
      postBody = (\<lambda>c endpoint release. response),
      unmarshalBadRequest = recordedBadRequest,
      unmarshalPush = recordedPush,
      unmarshalStatus = recordedStatus,
      String = (\<lambda>response. response)\<rparr>"

definition exampleConfig :: Config where
  "exampleConfig =
     \<lparr>Hostname = ''http://localhost:8787'', APIKey = ''0123456789abcdef'', BasicAuth = False,
      Username = [], Password = [], Log = None\<rparr>"

definition exampleRelease :: Release where
  "exampleRelease = \<lparr>Title = ''Some.Book.2021.EPUB-GROUP''\<rparr>"

section \<open>The PolishTracker definition and the engine that reads it\<close>

subsection \<open>The definition (its YAML document)\<close>

text \<open>
  The document gives one line pattern with five variable names, one match template and
  one setting. A definition holds what the engine consumes of it: the ordered patterns,
  each with its variable names, the templates by output field, and the settings schema.
\<close>

datatype SettingType = TypeText | TypeSecret

record Setting =
  settingType :: SettingType
  required :: bool
  default_value :: "string option"

record Definition =
  patterns :: "(string \<times> string list) list"
  matchTemplates :: "(string \<times> string) list"
  settingsSchema :: "(string \<times> Setting) list"

abbreviation (input) backslash :: char where
  "backslash \<equiv> CHR 0x5C"

text \<open>
  The pattern of the document, byte for byte; a backslash cannot stand inside a string
  literal, so the text is cut at each one. Tokens are separated by two spaces.
\<close>

definition polishtracker_pattern :: string where
  "polishtracker_pattern =
     ''::: PolishTracker :::  Torrent '' @ backslash # ''( (.*) '' @ backslash # '')  ''
     @ backslash # ''|'' @ backslash # ''|  Kategoria: '' @ backslash # ''( (.*) ''
     @ backslash # '')  '' @ backslash # ''|'' @ backslash # ''|  Rozmiar: ''
     @ backslash # ''( (.*) '' @ backslash # '')  '' @ backslash # ''|'' @ backslash
     # ''|  Link: '' @ backslash # ''( (https://.*)/torrents/('' @ backslash # ''d+) ''
     @ backslash # '')''"

definition polishtracker :: Definition where
  "polishtracker =
     \<lparr>patterns =
        [(polishtracker_pattern,
          [''torrentName'', ''category'', ''torrentSize'', ''baseUrl'', ''torrentId''])],
      matchTemplates =
        [(''torrenturl'', ''{{ .baseUrl }}/downrss/{{ .rsskey }}/{{ .torrentId }}'')],
      settingsSchema =
        [(''rsskey'', \<lparr>settingType = TypeSecret, required = False, default_value = None\<rparr>)]\<rparr>"

text \<open>The first of the document's test lines.\<close>

definition polishtracker_test :: string where
  "polishtracker_test =
     ''::: PolishTracker :::  Torrent ( Some.Movie.2017.PLSUB.1080p.BDRip.x264-GROUP )  ||  Kategoria: ( movies HD )  ||  Rozmiar: ( 2.14 GB )  ||  Link: ( https://pte.nu/torrents/000000 )  ||  Wiecej: ( http://www.filmweb.pl/film?id=000000 )''"

subsection \<open>Regular expressions\<close>

text \<open>
  Modelled from the spec: the regular-expression engine with positional capture groups
  that the Line Matcher and the Definition Validator rely on. Neither is among the
  sources, so the engine is written here for the syntax the pattern uses: literal
  characters, backslash escapes of non-alphanumeric characters, \<^verbatim>\<open>\d\<close>, the dot, groups,
  alternation, and the greedy \<^verbatim>\<open>*\<close> and \<^verbatim>\<open>+\<close>. Any other syntax does not compile.
  Matching is on bytes and is leftmost-first: alternatives in order, repetition greedy,
  backtracking on failure.
\<close>

datatype re =
    Eps
  | Chr char
  | Dot
  | Digit
  | Cat re re
  | Alt re re
  | Star re
  | Group nat re

definition isDigit :: "char \<Rightarrow> bool" where
  "isDigit c = (c \<in> set ''0123456789'')"

definition isalnum :: "char \<Rightarrow> bool" where
  "isalnum c =
     (c \<in> set ''0123456789ABCDEFGHIJKLMNOPQRSTUVWXYZabcdefghijklmnopqrstuvwxyz'')"

text \<open>
  The parser keeps a stack of open groups: for each, its number, the alternatives
  already closed and the atoms of the alternative being read, both newest first.
  Groups are numbered by their opening parenthesis, from 1.
\<close>

type_synonym frame = "nat \<times> re list \<times> re list"

definition mkSeq :: "re list \<Rightarrow> re" where
  "mkSeq atoms = foldr Cat atoms Eps"

fun mkAlt :: "re list \<Rightarrow> re" where
  "mkAlt [] = Eps"
| "mkAlt [r] = r"
| "mkAlt (r # rs) = Alt r (mkAlt rs)"

fun closeFrame :: "frame \<Rightarrow> re" where
  "closeFrame (i, alts, atoms) = mkAlt (rev (mkSeq (rev atoms) # alts))"

fun isRepeat :: "re \<Rightarrow> bool" where
  "isRepeat (Star a) = True"
| "isRepeat (Cat a (Star b)) = True"
| "isRepeat r = False"

fun parse :: "frame list \<Rightarrow> nat \<Rightarrow> string \<Rightarrow> (re \<times> nat) option" where
  "parse st n [] = (case st of [f] \<Rightarrow> Some (closeFrame f, n) | _ \<Rightarrow> None)"
| "parse st n (c # cs) =
     (case st of
        [] \<Rightarrow> None
      | (i, alts, atoms) # up \<Rightarrow>
          if c = backslash then
            (case cs of
               [] \<Rightarrow> None
             | d # ds \<Rightarrow>
                 if d = CHR ''d'' then parse ((i, alts, Digit # atoms) # up) n ds
                 else if \<not> isalnum d \<and> (of_char d :: nat) < 128
                 then parse ((i, alts, Chr d # atoms) # up) n ds
                 else None)
          else if c = CHR ''('' then
            (case cs of
               [] \<Rightarrow> None
             | d # ds \<Rightarrow>
                 if d = CHR ''?'' then None else parse ((Suc n, [], []) # st) (Suc n) cs)
          else if c = CHR '')'' then
            (case up of
               [] \<Rightarrow> None
             | (j, alts', atoms') # up' \<Rightarrow>
                 parse ((j, alts', Group i (closeFrame (i, alts, atoms)) # atoms') # up') n cs)
          else if c = CHR ''|'' then parse ((i, mkSeq (rev atoms) # alts, []) # up) n cs
          else if c = CHR ''*'' then
            (case atoms of
               [] \<Rightarrow> None
             | a # rest \<Rightarrow>
                 if isRepeat a then None else parse ((i, alts, Star a # rest) # up) n cs)
          else if c = CHR ''+'' then
            (case atoms of
               [] \<Rightarrow> None
             | a # rest \<Rightarrow>
                 if isRepeat a then None
                 else parse ((i, alts, Cat a (Star a) # rest) # up) n cs)
          else if c = CHR ''.'' then parse ((i, alts, Dot # atoms) # up) n cs
          else if c \<in> set ''?[]{}^$'' then None
          else parse ((i, alts, Chr c # atoms) # up) n cs)"

text \<open>
  Modelled from the spec: compiling a pattern, the first check of the Definition
  Validator (the regular-expression engine is not among the sources). \<open>None\<close> is a
  pattern that does not compile; otherwise the expression and its number of groups.
\<close>

definition compile :: "string \<Rightarrow> (re \<times> nat) option" where
  "compile p = parse [(0, [], [])] 0 p"

text \<open>
  The matcher is a backtracking machine over a list of pending instructions. A group
  records the input where it opened and where it closed (the captured text is the
  difference); a repetition goes round again only if the last round consumed input.
\<close>

type_synonym caps = "nat \<rightharpoonup> string \<times> string"

datatype instr = Match re | Progress string | Close nat string

definition shorter :: "string \<Rightarrow> string \<Rightarrow> bool" where
  "shorter s s0 = (length s < length s0)"

fun weight :: "re \<Rightarrow> nat" where
  "weight Eps = 1"
| "weight (Chr x) = 1"
| "weight Dot = 1"
| "weight Digit = 1"
| "weight (Cat a b) = weight a + weight b + 1"
| "weight (Alt a b) = weight a + weight b + 1"
| "weight (Star a) = weight a + 3"
| "weight (Group i a) = weight a + 2"

fun pending :: "instr list \<Rightarrow> nat \<Rightarrow> nat" where
  "pending [] n = 0"
| "pending (Match r # k) n = weight r + pending k n"
| "pending (Close i s0 # k) n = 1 + pending k n"
| "pending (Progress s0 # k) n = 1 + (if n < length s0 then pending k n else 0)"

text \<open>
  Modelled from the spec: applying one compiled pattern to an input, for the Line
  Matcher (not among the sources). \<open>None\<close> is no match at this start; otherwise the
  groups recorded on the way.
\<close>

function run :: "instr list \<Rightarrow> string \<Rightarrow> caps \<Rightarrow> caps option" where
  "run [] s c = Some c"
| "run (Match Eps # k) s c = run k s c"
| "run (Match (Chr x) # k) [] c = None"
| "run (Match (Chr x) # k) (y # t) c = (if y = x then run k t c else None)"
| "run (Match Dot # k) [] c = None"
| "run (Match Dot # k) (y # t) c = (if y \<noteq> CHR 0x0A then run k t c else None)"
| "run (Match Digit # k) [] c = None"
| "run (Match Digit # k) (y # t) c = (if isDigit y then run k t c else None)"
| "run (Match (Cat a b) # k) s c = run (Match a # Match b # k) s c"
| "run (Match (Alt a b) # k) s c =
     (case run (Match a # k) s c of Some r \<Rightarrow> Some r | None \<Rightarrow> run (Match b # k) s c)"
| "run (Match (Star a) # k) s c =
     (case run (Match a # Progress s # Match (Star a) # k) s c of
        Some r \<Rightarrow> Some r
      | None \<Rightarrow> run k s c)"
| "run (Progress s0 # k) s c = (if shorter s s0 then run k s c else None)"
| "run (Match (Group i a) # k) s c = run (Match a # Close i s # k) s c"
| "run (Close i s0 # k) s c = run k s (c(i \<mapsto> (s0, s)))"
  by pat_completeness auto
termination
  by (relation "measures [\<lambda>(k, s, c). length s, \<lambda>(k, s, c). pending k (length s)]")
     (auto simp: shorter_def)

text \<open>The pattern is not anchored: the leftmost start that matches wins.\<close>

fun search :: "re \<Rightarrow> string \<Rightarrow> caps option" where
  "search r [] = run [Match r] [] Map.empty"
| "search r (x # t) =
     (case run [Match r] (x # t) Map.empty of None \<Rightarrow> search r t | Some c \<Rightarrow> Some c)"

definition submatch :: "caps \<Rightarrow> nat \<Rightarrow> string" where
  "submatch c i =
     (case c i of None \<Rightarrow> [] | Some (s0, s1) \<Rightarrow> take (length s0 - length s1) s0)"

text \<open>
  Modelled from the spec: the ordered capture groups of the leftmost match, for the
  Line Matcher (not among the sources); a group that took no part is the empty string.
\<close>

definition FindStringSubmatch :: "re \<times> nat \<Rightarrow> string \<Rightarrow> string list option" where
  "FindStringSubmatch rn s =
     (case search (fst rn) s of
        None \<Rightarrow> None
      | Some c \<Rightarrow> Some (map (submatch c) [1..<Suc (snd rn)]))"

subsection \<open>Templates\<close>

text \<open>
  Modelled from the spec: the Template Renderer, which is not among the sources. A
  template is text with placeholders \<^verbatim>\<open>{{ .name }}\<close>; rendering expands them left to right
  from the captured variables, then from the settings, and a name found in neither
  expands to the empty string. Only a template that cannot be read is an error.
\<close>

datatype segment = Text string | Ref string

datatype scan = InText string | Opened | InName string | Closing

definition isIdent :: "char \<Rightarrow> bool" where
  "isIdent c = (isalnum c \<or> c = CHR ''_'')"

definition pushText :: "string \<Rightarrow> segment list \<Rightarrow> segment list" where
  "pushText acc segs = (if acc = [] then segs else Text (rev acc) # segs)"

fun scanTemplate :: "scan \<Rightarrow> segment list \<Rightarrow> string \<Rightarrow> segment list option" where
  "scanTemplate st segs [] =
     (case st of InText acc \<Rightarrow> Some (rev (pushText acc segs)) | _ \<Rightarrow> None)"
| "scanTemplate st segs (c # cs) =
     (case st of
        InText acc \<Rightarrow>
          (case cs of
             [] \<Rightarrow> scanTemplate (InText (c # acc)) segs cs
           | d # ds \<Rightarrow>
               if c = CHR ''{'' \<and> d = CHR ''{''
               then scanTemplate Opened (pushText acc segs) ds
               else scanTemplate (InText (c # acc)) segs cs)
      | Opened \<Rightarrow>
          if c = CHR '' '' then scanTemplate Opened segs cs
          else if c = CHR ''.'' then scanTemplate (InName []) segs cs
          else None
      | InName acc \<Rightarrow>
          if isIdent c then scanTemplate (InName (c # acc)) segs cs
          else if acc = [] then None
          else if c = CHR '' '' then scanTemplate Closing (Ref (rev acc) # segs) cs
          else if c = CHR ''}'' then
            (case cs of
               [] \<Rightarrow> None
             | d # ds \<Rightarrow>
                 if d = CHR ''}'' then scanTemplate (InText []) (Ref (rev acc) # segs) ds
                 else None)
          else None
      | Closing \<Rightarrow>
          if c = CHR '' '' then scanTemplate Closing segs cs
          else if c = CHR ''}'' then
            (case cs of
               [] \<Rightarrow> None
             | d # ds \<Rightarrow> if d = CHR ''}'' then scanTemplate (InText []) segs ds else None)
          else None)"

definition parseTemplate :: "string \<Rightarrow> segment list option" where
  "parseTemplate t = scanTemplate (InText []) [] t"

datatype RenderError = MalformedTemplate

definition resolve :: "(string \<times> string) list \<Rightarrow> (string \<times> string) list \<Rightarrow> string \<Rightarrow> string" where
  "resolve variables settings nm =
     (case map_of variables nm of
        Some v \<Rightarrow> v
      | None \<Rightarrow> (case map_of settings nm of Some v \<Rightarrow> v | None \<Rightarrow> []))"

fun expand :: "(string \<times> string) list \<Rightarrow> (string \<times> string) list \<Rightarrow> segment \<Rightarrow> string" where
  "expand variables settings (Text t) = t"
| "expand variables settings (Ref nm) = resolve variables settings nm"

text \<open>
  Modelled from the spec: the Template Renderer's \<^verbatim>\<open>render(template, variables, settings)\<close>
  (not among the sources).
\<close>

definition render ::
  "string \<Rightarrow> (string \<times> string) list \<Rightarrow> (string \<times> string) list \<Rightarrow> RenderError + string" where
  "render template variables settings =
     (case parseTemplate template of
        None \<Rightarrow> Inl MalformedTemplate
      | Some segs \<Rightarrow> Inr (concat (map (expand variables settings) segs)))"

subsection \<open>Validating a definition\<close>

text \<open>
  Modelled from the spec: the Definition Validator, which is not among the sources. It
  checks, in this order, that each pattern compiles, that each pattern has as many
  groups as variable names, that each template can be read and names only declared
  variables and settings, and that no pattern names a variable twice; the first
  violation is the result.
\<close>

datatype DefinitionError =
    PatternDoesNotCompile string
  | GroupCountMismatch string
  | TemplateUnreadable string
  | UnresolvedPlaceholder string string
  | DuplicateVariable string

type_synonym LinePattern = "string \<times> (re \<times> nat) \<times> string list"

record ValidDefinition =
  source :: Definition
  compiled :: "LinePattern list"

fun compilePatterns :: "(string \<times> string list) list \<Rightarrow> DefinitionError + LinePattern list" where
  "compilePatterns [] = Inr []"
| "compilePatterns ((p, vars) # rest) =
     (case compile p of
        None \<Rightarrow> Inl (PatternDoesNotCompile p)
      | Some rn \<Rightarrow>
          (case compilePatterns rest of
             Inl e \<Rightarrow> Inl e
           | Inr others \<Rightarrow> Inr ((p, rn, vars) # others)))"

fun firstViolation :: "('a \<Rightarrow> DefinitionError option) \<Rightarrow> 'a list \<Rightarrow> DefinitionError option" where
  "firstViolation check [] = None"
| "firstViolation check (x # xs) =
     (case check x of Some e \<Rightarrow> Some e | None \<Rightarrow> firstViolation check xs)"

fun groupCount :: "LinePattern \<Rightarrow> DefinitionError option" where
  "groupCount (p, (r, n), vars) = (if n = length vars then None else Some (GroupCountMismatch p))"

fun placeholder :: "string list \<Rightarrow> string \<Rightarrow> segment \<Rightarrow> DefinitionError option" where
  "placeholder declared field (Text t) = None"
| "placeholder declared field (Ref nm) =
     (if nm \<in> set declared then None else Some (UnresolvedPlaceholder field nm))"

fun placeholders :: "string list \<Rightarrow> string \<times> string \<Rightarrow> DefinitionError option" where
  "placeholders declared (field, template) =
     (case parseTemplate template of
        None \<Rightarrow> Some (TemplateUnreadable field)
      | Some segs \<Rightarrow> firstViolation (placeholder declared field) segs)"

fun duplicates :: "LinePattern \<Rightarrow> DefinitionError option" where
  "duplicates (p, rn, vars) = (if distinct vars then None else Some (DuplicateVariable p))"

definition declaredNames :: "Definition \<Rightarrow> string list" where
  "declaredNames d = concat (map snd (patterns d)) @ map fst (settingsSchema d)"

text \<open>
  Modelled from the spec: the Definition Validator's \<^verbatim>\<open>validate(definition)\<close> (not among
  the sources).
\<close>

definition validate :: "Definition \<Rightarrow> DefinitionError + ValidDefinition" where
  "validate d =
     (case compilePatterns (patterns d) of
        Inl e \<Rightarrow> Inl e
      | Inr cs \<Rightarrow>
          (case firstViolation groupCount cs of
             Some e \<Rightarrow> Inl e
           | None \<Rightarrow>
               (case firstViolation (placeholders (declaredNames d)) (matchTemplates d) of
                  Some e \<Rightarrow> Inl e
                | None \<Rightarrow>
                    (case firstViolation duplicates cs of
                       Some e \<Rightarrow> Inl e
                     | None \<Rightarrow> Inr \<lparr>source = d, compiled = cs\<rparr>))))"

subsection \<open>Matching a line\<close>

text \<open>
  Modelled from the spec: the Line Matcher, which is not among the sources. The
  patterns are tried in their declared order and the first that matches wins; its
  groups, in order, are zipped with its variable names. The line is matched as it is.
\<close>

datatype Match = MatchResult "(string \<times> string) list" | NoMatch

fun matchFirst :: "LinePattern list \<Rightarrow> string \<Rightarrow> Match" where
  "matchFirst [] line = NoMatch"
| "matchFirst ((p, rn, vars) # rest) line =
     (case FindStringSubmatch rn line of
        Some groups \<Rightarrow> MatchResult (zip vars groups)
      | None \<Rightarrow> matchFirst rest line)"

text \<open>
  Modelled from the spec: the Line Matcher's \<^verbatim>\<open>match(validDefinition, line)\<close> (not among
  the sources).
\<close>

definition matchLine :: "ValidDefinition \<Rightarrow> string \<Rightarrow> Match" where
  "matchLine v line = matchFirst (compiled v) line"

text \<open>
  Modelled from the spec: loading a definition and matching one line against it, the
  Definition Validator followed by the Line Matcher (neither among the sources).
\<close>

definition announce :: "Definition \<Rightarrow> string \<Rightarrow> DefinitionError + Match" where
  "announce d line =
     (case validate d of Inl e \<Rightarrow> Inl e | Inr v \<Rightarrow> Inr (matchLine v line))"

text \<open>
  A regular expression that begins with a literal text: what is left of it once the
  text is taken off its front.
\<close>

fun stripLiteral :: "string \<Rightarrow> re \<Rightarrow> re option" where
  "stripLiteral [] r = Some r"
| "stripLiteral (x # xs) (Cat (Chr y) r) = (if x = y then stripLiteral xs r else None)"
| "stripLiteral (x # xs) r = None"

fun beginsWith :: "string \<Rightarrow> LinePattern \<Rightarrow> bool" where
  "beginsWith lit (p, (r, n), vars) = (stripLiteral lit r \<noteq> None)"

section \<open>Properties of the client\<close>

lemma renderRejections_Some:
  "renderRejections str (map Some objects) acc = Inr (acc @ map str objects)"
  by (induction objects arbitrary: acc) simp_all

lemma renderRejections_panic:
  "renderRejections str responses acc = Inl p \<Longrightarrow> p = NilBadRequestResponse"
  by (induction str responses acc rule: renderRejections.induct) simp_all

lemma New_Log:
  "Client.Log (New cfg) =
     (case Config.Log cfg of
        None \<Rightarrow> Some (log_New io_Discard [] log_LstdFlags)
      | Some l \<Rightarrow> Some l)"
  by (simp add: New_def Let_def split: option.split)

lemma New_Log_Some: "\<exists>l. Client.Log (New cfg) = Some l"
  by (simp add: New_Log split: option.split)

text \<open>
  C1. A push response with status 401 should give an unauthorized outcome whatever its
  body. \<^verbatim>\<open>Push\<close> does not look for that status: a 401 whose body is the empty JSON
  object gives no rejections and no error, exactly what the same body gives with
  status 200, while \<^verbatim>\<open>Test\<close> on the same response returns the unauthorized error.
\<close>

theorem Push_unauthorized_is_not_told_apart:
  "returned (Push (recorded (401, ''{}'', None)) (New exampleConfig) exampleRelease)
     = Inr (None, None)
   \<and> returned (Push (recorded (200, ''{}'', None)) (New exampleConfig) exampleRelease)
     = Inr (None, None)
   \<and> returned (Test (recorded (401, ''{}'', None)) (New exampleConfig))
     = Inr (None, Some (errors_New ''unauthorized: bad credentials''))"
  by code_simp

text \<open>
  C2. On status 400 with a body that decodes to a list of rejection objects, \<^verbatim>\<open>Push\<close>
  returns their rendered descriptions, one per object and in the list's order, with a
  nil error; a single object gives a single reason.
\<close>

theorem Push_bad_request_rejections:
  assumes "postBody env (New cfg) ''release/push'' release = (400, res, None)"
    and "unmarshalBadRequest env res = Inr (map Some objects)"
  shows "returned (Push env (New cfg) release) = Inr (Some (map (String env) objects), None)"
proof -
  obtain l where "Client.Log (New cfg) = Some l"
    using New_Log_Some by blast
  with assms show ?thesis
    by (simp add: Push_def returned_def http_StatusBadRequest_def renderRejections_Some)
qed

theorem Push_bad_request_rejections_witness:
  \<open>postBody (recorded (400, ''[{"errorMessage": "already in library"}]'', None))
       (New exampleConfig) ''release/push'' exampleRelease
     = (400, ''[{"errorMessage": "already in library"}]'', None)
   \<and> unmarshalBadRequest (recorded (400, ''[{"errorMessage": "already in library"}]'', None))
         ''[{"errorMessage": "already in library"}]''
       = Inr (map Some [''already in library''])
   \<and> returned (Push (recorded (400, ''[{"errorMessage": "already in library"}]'', None))
                  (New exampleConfig) exampleRelease)
       = Inr (Some [''already in library''], None)\<close>
proof -
  let ?body = \<open>''[{"errorMessage": "already in library"}]''\<close>
  let ?env = "recorded (400, ?body, None)"
  have transport:
    "postBody ?env (New exampleConfig) ''release/push'' exampleRelease = (400, ?body, None)"
    by (simp add: recorded_def)
  have decoded: "unmarshalBadRequest ?env ?body = Inr (map Some [''already in library''])"
    by (simp add: recorded_def recordedBadRequest_def)
  show ?thesis
    using Push_bad_request_rejections [OF transport decoded] transport decoded
    by (simp add: recorded_def)
qed




text \<open>
  C4. Whatever the status, when the body does not decode into the target chosen for
  that status (the list of rejection objects for 400, the push response otherwise),
  \<^verbatim>\<open>Push\<close> returns no rejection list and an error that wraps the decoder's own.
\<close>

theorem Push_unmarshal_failure:
  assumes "postBody env (New cfg) ''release/push'' release = (status, res, None)"
    and "status = 400 \<Longrightarrow> unmarshalBadRequest env res = Inl e"
    and "status \<noteq> 400 \<Longrightarrow> unmarshalPush env res = Inl e"
  shows "returned (Push env (New cfg) release) =
           Inr (None, Some (errors_Wrap e ''could not unmarshal data''))"
proof -
  obtain l where "Client.Log (New cfg) = Some l"
    using New_Log_Some by blast
  with assms show ?thesis
    by (cases "status = 400") (simp_all add: Push_def returned_def http_StatusBadRequest_def)
qed

theorem Push_unmarshal_failure_witness:
  "returned (Push (recorded (400, ''<html>Bad Request</html>'', None))
               (New exampleConfig) exampleRelease)
     = Inr (None,
            Some (errors_Wrap
                    (foreign ''json: cannot unmarshal into Go value of type []*readarr.BadRequestResponse'')
                    ''could not unmarshal data''))
   \<and> returned (Push (recorded (502, ''<html>Bad Gateway</html>'', None))
                  (New exampleConfig) exampleRelease)
       = Inr (None,
              Some (errors_Wrap
                      (foreign ''json: cannot unmarshal into Go value of type readarr.PushResponse'')
                      ''could not unmarshal data''))"
proof -
  let ?bad = "recorded (400, ''<html>Bad Request</html>'', None)"
  let ?gateway = "recorded (502, ''<html>Bad Gateway</html>'', None)"
  have transport_bad:
    "postBody ?bad (New exampleConfig) ''release/push'' exampleRelease
       = (400, ''<html>Bad Request</html>'', None)"
    by (simp add: recorded_def)
  have decoded_bad:
    "unmarshalBadRequest ?bad ''<html>Bad Request</html>''
       = Inl (foreign ''json: cannot unmarshal into Go value of type []*readarr.BadRequestResponse'')"
    by (simp add: recorded_def recordedBadRequest_def)
  have transport_gateway:
    "postBody ?gateway (New exampleConfig) ''release/push'' exampleRelease
       = (502, ''<html>Bad Gateway</html>'', None)"
    by (simp add: recorded_def)
  have decoded_gateway:
    "unmarshalPush ?gateway ''<html>Bad Gateway</html>''
       = Inl (foreign ''json: cannot unmarshal into Go value of type readarr.PushResponse'')"
    by (simp add: recorded_def recordedPush_def)
  have "returned (Push ?bad (New exampleConfig) exampleRelease)
          = Inr (None,
                 Some (errors_Wrap
                         (foreign ''json: cannot unmarshal into Go value of type []*readarr.BadRequestResponse'')
                         ''could not unmarshal data''))"
    by (rule Push_unmarshal_failure [OF transport_bad]) (simp_all add: decoded_bad)
  moreover
  have "returned (Push ?gateway (New exampleConfig) exampleRelease)
          = Inr (None,
                 Some (errors_Wrap
                         (foreign ''json: cannot unmarshal into Go value of type readarr.PushResponse'')
                         ''could not unmarshal data''))"
    by (rule Push_unmarshal_failure [OF transport_gateway]) (simp_all add: decoded_gateway)
  ultimately show ?thesis
    by simp
qed

text \<open>
  C5. A rejection is returned as a value, never as an error: on both paths that give
  rejections (the decoded list of a 400, and a push response whose rejected flag is
  true) \<^verbatim>\<open>Push\<close> returns the reasons together with a nil error.
\<close>

theorem Push_rejected_nil_error:
  assumes "postBody env (New cfg) ''release/push'' release = (status, res, None)"
    and "(status = 400 \<and> unmarshalBadRequest env res = Inr (map Some objects)
            \<and> reasons = Some (map (String env) objects))
         \<or> (status \<noteq> 400 \<and> unmarshalPush env res = Inr pushResponse
            \<and> Rejected pushResponse \<and> reasons = Rejections pushResponse)"
  shows "returned (Push env (New cfg) release) = Inr (reasons, None)"
proof -
  obtain l where "Client.Log (New cfg) = Some l"
    using New_Log_Some by blast
  with assms show ?thesis
    by (auto simp add: Push_def returned_def http_StatusBadRequest_def Let_def
          renderRejections_Some)
qed

theorem Push_rejected_nil_error_witness:
  \<open>returned (Push (recorded (400, ''[{"errorMessage": "unknown author"}, {"errorMessage": "bad quality"}]'', None))
               (New exampleConfig) exampleRelease)
     = Inr (Some [''unknown author'', ''bad quality''], None)
   \<and> returned (Push (recorded (201, ''{"rejected": true, "rejections": ["a","b"]}'', None))
                  (New exampleConfig) exampleRelease)
       = Inr (Some [''a'', ''b''], None)\<close>
proof -
  let ?two = \<open>''[{"errorMessage": "unknown author"}, {"errorMessage": "bad quality"}]''\<close>
  let ?yes = \<open>''{"rejected": true, "rejections": ["a","b"]}''\<close>
  let ?bad = "recorded (400, ?two, None)"
  let ?created = "recorded (201, ?yes, None)"
  have transport_bad:
    "postBody ?bad (New exampleConfig) ''release/push'' exampleRelease = (400, ?two, None)"
    by (simp add: recorded_def)
  have decoded_bad:
    "unmarshalBadRequest ?bad ?two = Inr (map Some [''unknown author'', ''bad quality''])"
    by (simp add: recorded_def recordedBadRequest_def)
  have rendered_bad:
    "Some [''unknown author'', ''bad quality'']
       = Some (map (String ?bad) [''unknown author'', ''bad quality''])"
    by (simp add: recorded_def)
  have transport_created:
    "postBody ?created (New exampleConfig) ''release/push'' exampleRelease = (201, ?yes, None)"
    by (simp add: recorded_def)
  have decoded_created:
    "unmarshalPush ?created ?yes = Inr \<lparr>Rejected = True, Rejections = Some [''a'', ''b'']\<rparr>"
    by (simp add: recorded_def recordedPush_def)
  have "returned (Push ?bad (New exampleConfig) exampleRelease)
          = Inr (Some [''unknown author'', ''bad quality''], None)"
    using decoded_bad rendered_bad
    by (intro Push_rejected_nil_error [OF transport_bad]) blast
  moreover
  have "returned (Push ?created (New exampleConfig) exampleRelease)
          = Inr (Some [''a'', ''b''], None)"
    using decoded_created
    by (intro Push_rejected_nil_error
                [OF transport_created, where pushResponse = "\<lparr>Rejected = True, Rejections = Some [''a'', ''b'']\<rparr>"])
       simp
  ultimately show ?thesis
    by simp
qed

text \<open>Without a timeout, a downstream that never answers keeps \<^verbatim>\<open>Push\<close> waiting for ever.\<close>

lemma PushTo_without_timeout:
  "Timeout (http c) = 0 \<Longrightarrow> PushTo env c release NeverAnswers = None"
  by (simp add: PushTo_def http_Do_def)

lemma New_Timeout: "sint (Timeout (http (New cfg))) = 120000000000"
  by (simp add: New_def Let_def Second_def)

text \<open>
  C6. For every configuration the HTTP client built by \<^verbatim>\<open>New\<close> has a timeout of 120
  seconds (120 times 1000000000 nanoseconds, without wrap-around), and the transport
  call of \<^verbatim>\<open>Push\<close> runs under it: whatever the downstream does, \<^verbatim>\<open>Push\<close> returns; when the
  downstream never answers, or answers only after the 120 seconds, \<^verbatim>\<open>Push\<close> returns the
  wrapped deadline error with no rejections; an answer that comes in time is
  handled as the answer it is.
\<close>

theorem Push_bounded_by_timeout:
  "sint (Timeout (http (New cfg))) = 120 * sint Second
   \<and> sint Second = 1000000000
   \<and> PushTo env (New cfg) release d \<noteq> None
   \<and> PushTo env (New cfg) release NeverAnswers
       = Some (Inr ([], None,
                 Some (errors_Wrap deadlineExceeded ''could not push release to readarr'')))
   \<and> (120000000000 \<le> delay \<longrightarrow>
        PushTo env (New cfg) release (Answers delay status body)
          = Some (Inr ([], None,
                    Some (errors_Wrap deadlineExceeded ''could not push release to readarr''))))
   \<and> (delay < 120000000000 \<longrightarrow>
        PushTo env (New cfg) release (Answers delay status body)
          = Some (Push (env\<lparr>postBody := (\<lambda>c endpoint release. (status, body, None))\<rparr>)
                    (New cfg) release))"
proof -
  have second: "sint Second = 1000000000"
    by (simp add: Second_def)
  have never: "http_Do (http (New cfg)) NeverAnswers = Some (0, [], Some deadlineExceeded)"
    by (simp add: http_Do_def New_Timeout)
  have late: "http_Do (http (New cfg)) (Answers delay status body)
                = Some (0, [], Some deadlineExceeded)"
    if "120000000000 \<le> delay"
    using that by (simp add: http_Do_def New_Timeout)
  have timely: "http_Do (http (New cfg)) (Answers delay status body)
                  = Some (status, body, None)"
    if "delay < 120000000000"
    using that by (simp add: http_Do_def New_Timeout)
  have returns: "http_Do (http (New cfg)) d \<noteq> None"
    by (cases d) (simp_all add: http_Do_def New_Timeout)
  have failed: "Push (env\<lparr>postBody := (\<lambda>c endpoint release. (0, [], Some deadlineExceeded))\<rparr>)
                  (New cfg) release
                = Inr ([], None,
                    Some (errors_Wrap deadlineExceeded ''could not push release to readarr''))"
    by (simp add: Push_def)
  have "sint (Timeout (http (New cfg))) = 120 * sint Second"
    by (simp add: New_Timeout second)
  moreover have "PushTo env (New cfg) release d \<noteq> None"
    using returns by (auto simp add: PushTo_def split: option.splits)
  moreover have "PushTo env (New cfg) release NeverAnswers
                   = Some (Inr ([], None,
                        Some (errors_Wrap deadlineExceeded ''could not push release to readarr'')))"
    by (simp add: PushTo_def never failed)
  moreover have "120000000000 \<le> delay \<longrightarrow>
                   PushTo env (New cfg) release (Answers delay status body)
                     = Some (Inr ([], None,
                          Some (errors_Wrap deadlineExceeded ''could not push release to readarr'')))"
    by (simp add: PushTo_def late failed)
  moreover have "delay < 120000000000 \<longrightarrow>
                   PushTo env (New cfg) release (Answers delay status body)
                     = Some (Push (env\<lparr>postBody := (\<lambda>c endpoint release. (status, body, None))\<rparr>)
                               (New cfg) release)"
    by (simp add: PushTo_def timely)
  ultimately show ?thesis
    using second by blast
qed

theorem Push_bounded_by_timeout_witness:
  \<open>(120000000000::nat) \<le> 300000000000
   \<and> PushTo (recorded (0, [], None)) (New exampleConfig) exampleRelease
         (Answers 300000000000 200 ''{"rejected": false}'')
       = Some (Inr ([], None,
                 Some (errors_Wrap deadlineExceeded ''could not push release to readarr'')))
   \<and> PushTo (recorded (0, [], None)) (New exampleConfig) exampleRelease NeverAnswers
       = Some (Inr ([], None,
                 Some (errors_Wrap deadlineExceeded ''could not push release to readarr'')))
   \<and> (1500000000::nat) < 120000000000
   \<and> map_option returned
         (PushTo (recorded (0, [], None)) (New exampleConfig) exampleRelease
            (Answers 1500000000 200 ''{"rejected": true, "rejections": ["a","b"]}''))
       = Some (Inr (Some [''a'', ''b''], None))\<close>
proof -
  let ?env = "recorded (0, [], None)"
  let ?yes = \<open>''{"rejected": true, "rejections": ["a","b"]}''\<close>
  have answered:
    "returned (Push (?env\<lparr>postBody := (\<lambda>c endpoint release. (200, ?yes, None))\<rparr>)
                 (New exampleConfig) exampleRelease)
       = Inr (Some [''a'', ''b''], None)"
    by code_simp
  show ?thesis
    using Push_bounded_by_timeout
            [of exampleConfig ?env exampleRelease NeverAnswers 300000000000 200
                \<open>''{"rejected": false}''\<close>]
      Push_bounded_by_timeout
            [of exampleConfig ?env exampleRelease NeverAnswers 1500000000 200 ?yes]
      answered
    by simp
qed

text \<open>
  C10. For every configuration, with or without a logger of its own, the client built
  by \<^verbatim>\<open>New\<close> has a logger; it is the discarding one when the configuration has none.
  So neither \<^verbatim>\<open>Push\<close> nor \<^verbatim>\<open>Test\<close> on that client ever panics on a nil logger.
\<close>

theorem New_logger_not_nil:
  "Client.Log (New cfg) \<noteq> None
   \<and> (Config.Log cfg = None \<longrightarrow>
        Client.Log (New cfg) = Some (log_New io_Discard [] log_LstdFlags))
   \<and> Push env (New cfg) release \<noteq> Inl NilLogger
   \<and> Test env (New cfg) \<noteq> Inl NilLogger"
proof -
  obtain l where l: "Client.Log (New cfg) = Some l"
    using New_Log_Some by blast
  have "Push env (New cfg) release \<noteq> Inl NilLogger"
    using l by (auto simp add: Push_def Let_def dest: renderRejections_panic
                  split: prod.splits option.splits sum.splits)
  moreover have "Test env (New cfg) \<noteq> Inl NilLogger"
    using l by (auto simp add: Test_def Let_def split: prod.splits option.splits sum.splits)
  ultimately show ?thesis
    using l by (simp add: New_Log)
qed

theorem New_logger_not_nil_witness:
  \<open>Config.Log exampleConfig = None
   \<and> Client.Log (New exampleConfig) = Some \<lparr>logOut = io_Discard, logPrefix = [], logFlags = 3\<rparr>
   \<and> Push (recorded (200, ''{"rejected": false}'', None)) (New exampleConfig) exampleRelease
       \<noteq> Inl NilLogger
   \<and> Test (recorded (200, ''{"version": "0.3.0"}'', None)) (New exampleConfig) \<noteq> Inl NilLogger\<close>
proof -
  have nil: "Config.Log exampleConfig = None"
    by (simp add: exampleConfig_def)
  show ?thesis
    using New_logger_not_nil [of exampleConfig
            \<open>recorded (200, ''{"rejected": false}'', None)\<close> exampleRelease]
      New_logger_not_nil [of exampleConfig
            \<open>recorded (200, ''{"version": "0.3.0"}'', None)\<close> exampleRelease] nil
    by (simp add: log_New_def log_LstdFlags_def)
qed

section \<open>Properties of the PolishTracker definition\<close>

lemma run_literal:
  "stripLiteral lit r = Some r' \<Longrightarrow> run (Match r # k) s c \<noteq> None \<Longrightarrow> prefix lit s"
proof (induction lit arbitrary: r s)
  case Nil
  then show ?case by simp
next
  case (Cons x xs)
  from Cons.prems(1) obtain r2
    where r: "r = Cat (Chr x) r2" and rest: "stripLiteral xs r2 = Some r'"
    by (cases "(x # xs, r)" rule: stripLiteral.cases) (auto split: if_splits)
  from Cons.prems(2) r obtain t
    where s: "s = x # t" and go: "run (Match r2 # k) t c \<noteq> None"
    by (cases s) (auto split: if_splits)
  from Cons.IH [OF rest go] s show ?case by simp
qed

lemma search_literal:
  "stripLiteral lit r = Some r' \<Longrightarrow> search r s \<noteq> None \<Longrightarrow> sublist lit s"
proof (induction s)
  case Nil
  then have "prefix lit []" using run_literal by fastforce
  then show ?case by simp
next
  case (Cons x t)
  show ?case
  proof (cases "run [Match r] (x # t) Map.empty")
    case None
    with Cons have "sublist lit t" by simp
    then show ?thesis by (simp add: sublist_Cons_right)
  next
    case (Some c)
    with Cons.prems(1) have "prefix lit (x # t)" using run_literal by fastforce
    then show ?thesis by (simp add: sublist_Cons_right)
  qed
qed

lemma matchFirst_literal:
  "list_all (beginsWith lit) cs \<Longrightarrow> \<not> sublist lit line \<Longrightarrow> matchFirst cs line = NoMatch"
proof (induction cs)
  case Nil
  then show ?case by simp
next
  case (Cons a cs)
  obtain p r n vars where a: "a = (p, (r, n), vars)"
    by (metis prod.exhaust)
  with Cons.prems(1) obtain r' where "stripLiteral lit r = Some r'"
    by auto
  with Cons.prems(2) have "search r line = None"
    using search_literal by blast
  with Cons a show ?case
    by (simp add: FindStringSubmatch_def)
qed

text \<open>The definition is valid, and its pattern begins with the tracker's banner.\<close>

lemma polishtracker_valid:
  "case validate polishtracker of
     Inl e \<Rightarrow> False
   | Inr v \<Rightarrow> list_all (beginsWith ''::: PolishTracker :::'') (compiled v)"
  by code_simp

text \<open>
  C7. The definition's \<^verbatim>\<open>torrenturl\<close> template, rendered with the captured
  \<^verbatim>\<open>baseUrl\<close> and \<^verbatim>\<open>torrentId\<close> and the setting \<^verbatim>\<open>rsskey\<close>, gives exactly the download
  URL made of the three.
\<close>

theorem render_torrenturl:
  "map_of (matchTemplates polishtracker) ''torrenturl''
     = Some ''{{ .baseUrl }}/downrss/{{ .rsskey }}/{{ .torrentId }}''
   \<and> render ''{{ .baseUrl }}/downrss/{{ .rsskey }}/{{ .torrentId }}''
        [(''baseUrl'', ''https://pte.nu''), (''torrentId'', ''000000'')]
        [(''rsskey'', ''ABC123'')]
     = Inr ''https://pte.nu/downrss/ABC123/000000''"
  by code_simp

text \<open>
  C8, as stated. The announce line written with single spaces between its tokens does
  not give the five variables: the pattern asks for two spaces after the banner and
  around each separator, so the line matches nothing.
\<close>

theorem announce_single_spaced_line:
  "announce polishtracker
     ''::: PolishTracker ::: Torrent ( Some.Movie.2017.PLSUB.1080p.BDRip.x264-GROUP ) || Kategoria: ( movies HD ) || Rozmiar: ( 2.14 GB ) || Link: ( https://pte.nu/torrents/000000 )''
   \<noteq> Inr (MatchResult
        [(''torrentName'', ''Some.Movie.2017.PLSUB.1080p.BDRip.x264-GROUP''),
         (''category'', ''movies HD''),
         (''torrentSize'', ''2.14 GB''),
         (''baseUrl'', ''https://pte.nu''),
         (''torrentId'', ''000000'')])
   \<and> announce polishtracker
     ''::: PolishTracker ::: Torrent ( Some.Movie.2017.PLSUB.1080p.BDRip.x264-GROUP ) || Kategoria: ( movies HD ) || Rozmiar: ( 2.14 GB ) || Link: ( https://pte.nu/torrents/000000 )''
   = Inr NoMatch"
  by code_simp

text \<open>
  C8, amended. The same announce line written as the tracker sends it, with two spaces
  after the banner and around each separator, gives exactly the five variables, the
  groups zipped in order with the declared names; so does the definition's first test
  line, which carries one more field after the link.
\<close>

theorem announce_documented_line:
  "announce polishtracker
     ''::: PolishTracker :::  Torrent ( Some.Movie.2017.PLSUB.1080p.BDRip.x264-GROUP )  ||  Kategoria: ( movies HD )  ||  Rozmiar: ( 2.14 GB )  ||  Link: ( https://pte.nu/torrents/000000 )''
   = Inr (MatchResult
        [(''torrentName'', ''Some.Movie.2017.PLSUB.1080p.BDRip.x264-GROUP''),
         (''category'', ''movies HD''),
         (''torrentSize'', ''2.14 GB''),
         (''baseUrl'', ''https://pte.nu''),
         (''torrentId'', ''000000'')])
   \<and> announce polishtracker polishtracker_test
   = Inr (MatchResult
        [(''torrentName'', ''Some.Movie.2017.PLSUB.1080p.BDRip.x264-GROUP''),
         (''category'', ''movies HD''),
         (''torrentSize'', ''2.14 GB''),
         (''baseUrl'', ''https://pte.nu''),
         (''torrentId'', ''000000'')])"
  by code_simp

text \<open>
  C9. A line that does not contain the banner \<^verbatim>\<open>::: PolishTracker :::\<close> matches nothing:
  the result is \<^verbatim>\<open>NoMatch\<close>, and not a definition error, since the definition is valid.
\<close>

theorem announce_unrelated_line:
  assumes "\<not> sublist ''::: PolishTracker :::'' line"
  shows "announce polishtracker line = Inr NoMatch"
proof (cases "validate polishtracker")
  case (Inl e)
  with polishtracker_valid show ?thesis by simp
next
  case (Inr v)
  with polishtracker_valid have "list_all (beginsWith ''::: PolishTracker :::'') (compiled v)"
    by simp
  with assms have "matchFirst (compiled v) line = NoMatch"
    by (rule matchFirst_literal [rotated])
  with Inr show ?thesis
    by (simp add: announce_def matchLine_def)
qed

theorem announce_unrelated_line_witness:
  "\<not> sublist ''::: PolishTracker :::'' ''PING :irc.pte.nu''
   \<and> announce polishtracker ''PING :irc.pte.nu'' = Inr NoMatch"
proof -
  have h: "\<not> sublist ''::: PolishTracker :::'' ''PING :irc.pte.nu''"
    by code_simp
  from announce_unrelated_line [OF h] h show ?thesis
    by simp
qed

end
